theory Spec2Isabelle
  imports Main "HOL-Library.Word"
begin

unbundle bit_operations_syntax

section \<open>Go values, errors and panics\<close>

text \<open>
  The server is a single Go file, \<^verbatim>\<open>main.go\<close>. Its two operations,
  \<^verbatim>\<open>searchRepository\<close> and \<^verbatim>\<open>getFileContent\<close>, and the two tool
  handlers registered in \<^verbatim>\<open>main\<close> are embedded here as HOL functions.

  \<^item> A Go pointer is an \<open>option\<close>: \<open>None\<close> is \<^verbatim>\<open>nil\<close>.
  \<^item> A Go function returning \<^verbatim>\<open>(T, error)\<close> returns a pair whose second
    component is an \<open>error option\<close>; \<open>None\<close> is the \<^verbatim>\<open>nil\<close> error.
  \<^item> Dereferencing \<^verbatim>\<open>nil\<close> is a run-time panic: functions that dereference
    return an \<open>outcome\<close>, either \<open>Returns v\<close> or \<open>Panics\<close>.
  \<^item> The upstream clients are interfaces: records of functions from the
    argument struct to the returned pair. Every function of the model also
    returns the list of upstream requests it issued, in order.
  \<^item> Calls to \<^verbatim>\<open>log.Printf\<close> write to the process log only and are left out.
\<close>

datatype error = errors_New string | fmt_Errorf_w string error

text \<open>
  \<open>errors_New m\<close> is an error whose message is \<open>m\<close> (\<^verbatim>\<open>fmt.Errorf\<close> without
  \<^verbatim>\<open>%w\<close> builds one); \<open>fmt_Errorf_w p e\<close> is \<^verbatim>\<open>fmt.Errorf(p + ": %w", e)\<close>.
\<close>

fun Error :: "error \<Rightarrow> string" where
  "Error (errors_New m) = m"
| "Error (fmt_Errorf_w p e) = p @ '': '' @ Error e"

datatype 'a outcome = Returns 'a | Panics

text \<open>
  A value of Go's \<^verbatim>\<open>interface{}\<close> as the JSON decoder of the tool protocol
  produces it. A \<^verbatim>\<open>float64\<close> is kept as its 64 bits.
\<close>

datatype go_value =
    GoNil
  | GoBool bool
  | GoFloat64 "64 word"
  | GoString string
  | GoSlice "go_value list"
  | GoMap "(string \<times> go_value) list"

text \<open>
  The type assertion \<^verbatim>\<open>v, ok := m[k].(string)\<close>: a missing key reads as the nil
  interface, and a failed assertion gives the zero value \<^verbatim>\<open>""\<close> and \<^verbatim>\<open>false\<close>.
\<close>

fun assert_string :: "go_value option \<Rightarrow> string \<times> bool" where
  "assert_string (Some (GoString s)) = (s, True)"
| "assert_string _ = ('''', False)"

section \<open>Configuration and the client library's structs\<close>

record Config =
  AzureDevOps_Organization :: string
  AzureDevOps_Project :: string
  AzureDevOps_PAT :: string
  AzureDevOps_APIVersion :: string
  Server_Port :: int
  Server_Host :: string

subsection \<open>Package search\<close>

record CodeSearchRequest =
  Filters :: "(string \<rightharpoonup> string list) option"
  SearchText :: "string option"
  OrderBy :: "(string \<times> string) list option"
  Skip :: "int option"
  Top :: "int option"
  IncludeFacets :: "bool option"
  IncludeSnippet :: "bool option"

record FetchCodeSearchResultsArgs =
  Search_Request :: "CodeSearchRequest option"
  Search_Project :: "string option"

text \<open>Of the response structs, the fields that \<^verbatim>\<open>main.go\<close> reads.\<close>

record search_Repository =
  Repository_Name :: "string option"

record search_Project =
  Project_Name :: "string option"

record CodeResult =
  FileName :: "string option"
  Path :: "string option"
  Project :: "search_Project option"
  Repository :: "search_Repository option"

record CodeSearchResponse =
  Count :: "int option"
  Results :: "CodeResult list option"

record search_Client =
  FetchCodeSearchResults ::
    "FetchCodeSearchResultsArgs \<Rightarrow> CodeSearchResponse option \<times> error option"

subsection \<open>Package git\<close>

record GetRepositoriesArgs =
  Repos_Project :: "string option"
  IncludeLinks :: "bool option"
  IncludeAllUrls :: "bool option"
  IncludeHidden :: "bool option"

record GitVersionDescriptor =
  Version :: "string option"
  VersionOptions :: "string option"
  VersionType :: "string option"

record GetItemArgs =
  RepositoryId :: "string option"
  Item_Path :: "string option"
  Item_Project :: "string option"
  ScopePath :: "string option"
  RecursionLevel :: "string option"
  IncludeContentMetadata :: "bool option"
  LatestProcessedChange :: "bool option"
  Download :: "bool option"
  VersionDescriptor :: "GitVersionDescriptor option"
  IncludeContent :: "bool option"
  ResolveLfs :: "bool option"

text \<open>
  A \<^verbatim>\<open>uuid.UUID\<close> is kept as its canonical text, which is what its
  \<^verbatim>\<open>String\<close> method returns.
\<close>

datatype UUID = UUID (UUID_String: string)

record GitRepository =
  Id :: "UUID option"
  Name :: "string option"

record GitItem =
  Content :: "string option"

record git_Client =
  GetRepositories :: "GetRepositoriesArgs \<Rightarrow> GitRepository list option \<times> error option"
  GetItem :: "GetItemArgs \<Rightarrow> GitItem option \<times> error option"

subsection \<open>The client of \<^verbatim>\<open>main.go\<close> and the requests it issues\<close>

record AzureDevOpsClient =
  config :: Config
  gitClient :: git_Client
  searchClient :: search_Client

datatype upstream_call =
    Call_FetchCodeSearchResults FetchCodeSearchResultsArgs
  | Call_GetRepositories GetRepositoriesArgs
  | Call_GetItem GetItemArgs

section \<open>searchRepository\<close>

text \<open>An element of the result: a \<^verbatim>\<open>map[string]interface{}\<close>.\<close>

type_synonym search_record = "string \<rightharpoonup> go_value"

text \<open>
  The body of the loop over \<^verbatim>\<open>*response.Results\<close>, with \<open>results\<close> the slice
  built so far. The guard tests three pointers; the map literal then
  dereferences \<^verbatim>\<open>result.Repository.Name\<close>, \<^verbatim>\<open>result.Path\<close>,
  \<^verbatim>\<open>result.FileName\<close> and \<^verbatim>\<open>result.Project.Name\<close>.
\<close>

fun process_results :: "CodeResult list \<Rightarrow> search_record list \<Rightarrow> search_record list outcome" where
  "process_results [] results = Returns results"
| "process_results (result # rest) results =
     (case (Repository result, Path result, FileName result) of
        (Some repository, Some path, Some fileName) \<Rightarrow>
          (case Repository_Name repository of
             None \<Rightarrow> Panics
           | Some repository_name \<Rightarrow>
               (case Project result of
                  None \<Rightarrow> Panics
                | Some project \<Rightarrow>
                    (case Project_Name project of
                       None \<Rightarrow> Panics
                     | Some project_name \<Rightarrow>
                         process_results rest
                           (results @
                            [[''repository'' \<mapsto> GoString repository_name,
                              ''path'' \<mapsto> GoString path,
                              ''fileName'' \<mapsto> GoString fileName,
                              ''project'' \<mapsto> GoString project_name]]))))
      | _ \<Rightarrow> process_results rest results)"

definition search_filters :: "AzureDevOpsClient \<Rightarrow> string \<Rightarrow> (string \<rightharpoonup> string list)" where
  "search_filters c repoName =
     (let filters = [''Project'' \<mapsto> [AzureDevOps_Project (config c)]]
      in if repoName \<noteq> '''' then filters(''Repository'' \<mapsto> [repoName]) else filters)"

definition search_args :: "AzureDevOpsClient \<Rightarrow> string \<Rightarrow> string \<Rightarrow> FetchCodeSearchResultsArgs" where
  "search_args c query repoName =
     \<lparr> Search_Request = Some
         \<lparr> Filters = Some (search_filters c repoName),
           SearchText = Some query,
           OrderBy = None,
           Skip = None,
           Top = Some 1000,
           IncludeFacets = None,
           IncludeSnippet = Some True \<rparr>,
       Search_Project = Some (AzureDevOps_Project (config c)) \<rparr>"

definition searchRepository ::
  "AzureDevOpsClient \<Rightarrow> string \<Rightarrow> string
     \<Rightarrow> (search_record list option \<times> error option) outcome \<times> upstream_call list" where
  "searchRepository c query repoName =
     (let args = search_args c query repoName;
          calls = [Call_FetchCodeSearchResults args]
      in case FetchCodeSearchResults (searchClient c) args of
           (response, Some err) \<Rightarrow>
             (Returns (None, Some (fmt_Errorf_w ''error searching code'' err)), calls)
         | (response, None) \<Rightarrow>
             (case response of
                None \<Rightarrow> (Returns (Some [], None), calls)
              | Some r \<Rightarrow>
                  (case Results r of
                     None \<Rightarrow> (Returns (Some [], None), calls)
                   | Some hits \<Rightarrow>
                       (case process_results hits [] of
                          Panics \<Rightarrow> (Panics, calls)
                        | Returns results \<Rightarrow> (Returns (Some results, None), calls)))))"

section \<open>strings.EqualFold\<close>

text \<open>
  The standard library's comparison under simple case folding. Its loop over
  the common prefix handles ASCII bytes itself and is modelled as written: equal
  bytes continue, two bytes that differ continue only when the smaller is an
  upper-case letter and the larger its lower-case form, and the strings must
  end together. At the first byte outside ASCII (\<^verbatim>\<open>sr|tr >= utf8.RuneSelf\<close>)
  the library switches to its Unicode tables for the remaining suffixes; that
  part is the parameter \<open>hasUnicode\<close>.
\<close>

definition byte :: "char \<Rightarrow> 8 word" where
  "byte c = of_char c"

definition RuneSelf :: "8 word" where
  "RuneSelf = 0x80"

text \<open>
  The test on two different ASCII bytes: after the swap that makes \<open>sr\<close> the
  smaller, \<^verbatim>\<open>'A' <= sr && sr <= 'Z' && tr == sr+'a'-'A'\<close>.
\<close>

definition ascii_fold_pair :: "8 word \<Rightarrow> 8 word \<Rightarrow> bool" where
  "ascii_fold_pair sr tr =
     (let lo = (if tr < sr then tr else sr);
          hi = (if tr < sr then sr else tr)
      in 0x41 \<le> lo \<and> lo \<le> 0x5A \<and> hi = lo + 0x61 - 0x41)"

fun EqualFold :: "(string \<Rightarrow> string \<Rightarrow> bool) \<Rightarrow> string \<Rightarrow> string \<Rightarrow> bool" where
  "EqualFold hasUnicode [] [] = True"
| "EqualFold hasUnicode [] (y # t) = False"
| "EqualFold hasUnicode (x # s) [] = False"
| "EqualFold hasUnicode (x # s) (y # t) =
     (if byte x OR byte y \<ge> RuneSelf then hasUnicode (x # s) (y # t)
      else if byte y = byte x then EqualFold hasUnicode s t
      else if ascii_fold_pair (byte x) (byte y) then EqualFold hasUnicode s t
      else False)"

text \<open>
  For comparison with \<open>EqualFold\<close>, case-insensitive equality as the
  specification words it, on ASCII: two names are equal when they are equal
  after each upper-case letter \<^verbatim>\<open>A\<close> to \<^verbatim>\<open>Z\<close> is replaced by its lower-case
  form.
\<close>

definition spec_ascii_lower :: "8 word \<Rightarrow> 8 word" where
  "spec_ascii_lower b = (if 0x41 \<le> b \<and> b \<le> 0x5A then b + 0x20 else b)"

definition spec_equal_ignoring_case :: "string \<Rightarrow> string \<Rightarrow> bool" where
  "spec_equal_ignoring_case s t \<longleftrightarrow>
     map (spec_ascii_lower \<circ> byte) s = map (spec_ascii_lower \<circ> byte) t"

section \<open>getFileContent\<close>

text \<open>
  The loop over \<^verbatim>\<open>*repos\<close>: it dereferences each \<^verbatim>\<open>repo.Name\<close> and stops at
  the first repository whose name folds to \<open>repoName\<close>; \<open>None\<close> is the
  \<^verbatim>\<open>targetRepo\<close> left \<^verbatim>\<open>nil\<close>.
\<close>

fun find_target_repo ::
  "(string \<Rightarrow> string \<Rightarrow> bool) \<Rightarrow> GitRepository list \<Rightarrow> string \<Rightarrow> GitRepository option outcome" where
  "find_target_repo hasUnicode [] repoName = Returns None"
| "find_target_repo hasUnicode (repo # rest) repoName =
     (case Name repo of
        None \<Rightarrow> Panics
      | Some name \<Rightarrow>
          if EqualFold hasUnicode name repoName then Returns (Some repo)
          else find_target_repo hasUnicode rest repoName)"

definition repositories_args :: "AzureDevOpsClient \<Rightarrow> GetRepositoriesArgs" where
  "repositories_args c =
     \<lparr> Repos_Project = Some (AzureDevOps_Project (config c)),
       IncludeLinks = None,
       IncludeAllUrls = None,
       IncludeHidden = None \<rparr>"

definition item_args :: "AzureDevOpsClient \<Rightarrow> string \<Rightarrow> string \<Rightarrow> GetItemArgs" where
  "item_args c repoID path =
     \<lparr> RepositoryId = Some repoID,
       Item_Path = Some path,
       Item_Project = Some (AzureDevOps_Project (config c)),
       ScopePath = None,
       RecursionLevel = None,
       IncludeContentMetadata = None,
       LatestProcessedChange = None,
       Download = None,
       VersionDescriptor = None,
       IncludeContent = Some True,
       ResolveLfs = None \<rparr>"

text \<open>The second half of the function, from \<^verbatim>\<open>repoID := targetRepo.Id.String()\<close> on.\<close>

definition fetch_item ::
  "AzureDevOpsClient \<Rightarrow> GitRepository \<Rightarrow> string
     \<Rightarrow> (string \<times> error option) outcome \<times> upstream_call list" where
  "fetch_item c targetRepo path =
     (case Id targetRepo of
        None \<Rightarrow> (Panics, [])
      | Some uuid \<Rightarrow>
          (let args = item_args c (UUID_String uuid) path;
               calls = [Call_GetItem args]
           in case GetItem (gitClient c) args of
                (item, Some err) \<Rightarrow> (Returns ('''', Some err), calls)
              | (None, None) \<Rightarrow> (Panics, calls)
              | (Some it, None) \<Rightarrow>
                  (case Content it of
                     None \<Rightarrow> (Returns ('''', None), calls)
                   | Some content \<Rightarrow> (Returns (content, None), calls))))"

definition getFileContent ::
  "(string \<Rightarrow> string \<Rightarrow> bool) \<Rightarrow> AzureDevOpsClient \<Rightarrow> string \<Rightarrow> string
     \<Rightarrow> (string \<times> error option) outcome \<times> upstream_call list" where
  "getFileContent hasUnicode c repoName path =
     (let args = repositories_args c;
          calls = [Call_GetRepositories args]
      in case GetRepositories (gitClient c) args of
           (repos, Some err) \<Rightarrow> (Returns ('''', Some err), calls)
         | (None, None) \<Rightarrow> (Panics, calls)
         | (Some rs, None) \<Rightarrow>
             (case find_target_repo hasUnicode rs repoName of
                Panics \<Rightarrow> (Panics, calls)
              | Returns None \<Rightarrow>
                  (Returns ('''', Some (errors_New (''repository not found: '' @ repoName))), calls)
              | Returns (Some targetRepo) \<Rightarrow>
                  (case fetch_item c targetRepo path of
                     (res, calls') \<Rightarrow> (res, calls @ calls'))))"

section \<open>The tool handlers\<close>

datatype CallToolResult = NewToolResultText string

text \<open>
  \<^verbatim>\<open>json.Marshal\<close> on a \<^verbatim>\<open>[]map[string]interface{}\<close>: a nil slice is
  \<^verbatim>\<open>null\<close>, any other slice a bracketed, comma-separated list of its
  elements. How the encoder renders one element is the parameter
  \<open>marshal_map\<close>.
\<close>

fun join_with :: "string \<Rightarrow> string list \<Rightarrow> string" where
  "join_with sep [] = ''''"
| "join_with sep [x] = x"
| "join_with sep (x # y # ys) = x @ sep @ join_with sep (y # ys)"

fun json_Marshal :: "(search_record \<Rightarrow> string) \<Rightarrow> search_record list option \<Rightarrow> string \<times> error option" where
  "json_Marshal marshal_map None = (''null'', None)"
| "json_Marshal marshal_map (Some results) =
     (''['' @ join_with '','' (map marshal_map results) @ '']'', None)"

type_synonym Arguments = "string \<rightharpoonup> go_value"

type_synonym handler_result = "(CallToolResult option \<times> error option) outcome \<times> upstream_call list"

definition search_handler ::
  "(search_record \<Rightarrow> string) \<Rightarrow> AzureDevOpsClient \<Rightarrow> Arguments \<Rightarrow> handler_result" where
  "search_handler marshal_map client Arguments =
     (case assert_string (Arguments ''query'') of
        (query, False) \<Rightarrow> (Returns (None, Some (errors_New ''query must be a string'')), [])
      | (query, True) \<Rightarrow>
          (let repoName = fst (assert_string (Arguments ''repo''))
           in case searchRepository client query repoName of
                (Panics, calls) \<Rightarrow> (Panics, calls)
              | (Returns (results, Some err), calls) \<Rightarrow>
                  (Returns (None, Some (fmt_Errorf_w ''error searching repositories'' err)), calls)
              | (Returns (results, None), calls) \<Rightarrow>
                  (case json_Marshal marshal_map results of
                     (jsonData, Some err) \<Rightarrow>
                       (Returns (None, Some (fmt_Errorf_w ''error marshaling results'' err)), calls)
                   | (jsonData, None) \<Rightarrow>
                       (Returns (Some (NewToolResultText jsonData), None), calls))))"

definition read_handler ::
  "(string \<Rightarrow> string \<Rightarrow> bool) \<Rightarrow> AzureDevOpsClient \<Rightarrow> Arguments \<Rightarrow> handler_result" where
  "read_handler hasUnicode client Arguments =
     (case assert_string (Arguments ''repository'') of
        (repo, False) \<Rightarrow> (Returns (None, Some (errors_New ''repository must be a string'')), [])
      | (repo, True) \<Rightarrow>
          (case assert_string (Arguments ''path'') of
             (path, False) \<Rightarrow> (Returns (None, Some (errors_New ''path must be a string'')), [])
           | (path, True) \<Rightarrow>
               (case getFileContent hasUnicode client repo path of
                  (Panics, calls) \<Rightarrow> (Panics, calls)
                | (Returns (content, Some err), calls) \<Rightarrow>
                    (Returns (None, Some (fmt_Errorf_w ''error getting file content'' err)), calls)
                | (Returns (content, None), calls) \<Rightarrow>
                    (Returns (Some (NewToolResultText content), None), calls))))"

section \<open>Stub upstream for concrete runs\<close>

text \<open>
  A client whose upstream answers every request with a fixed reply, for
  running the operations on concrete inputs. The configuration is the one of
  the README: project \<^verbatim>\<open>HCC\<close> on \<^verbatim>\<open>localhost:8080\<close>.
\<close>

definition example_config :: Config where
  "example_config =
     \<lparr> AzureDevOps_Organization = ''your-org'',
       AzureDevOps_Project = ''HCC'',
       AzureDevOps_PAT = ''pat'',
       AzureDevOps_APIVersion = ''6.0'',
       Server_Port = 8080,
       Server_Host = ''localhost'' \<rparr>"

definition stub_client ::
  "CodeSearchResponse option \<times> error option \<Rightarrow> GitRepository list option \<times> error option
     \<Rightarrow> GitItem option \<times> error option \<Rightarrow> AzureDevOpsClient" where
  "stub_client search_reply repos_reply item_reply =
     \<lparr> config = example_config,
       gitClient = \<lparr> GetRepositories = (\<lambda>_. repos_reply), GetItem = (\<lambda>_. item_reply) \<rparr>,
       searchClient = \<lparr> FetchCodeSearchResults = (\<lambda>_. search_reply) \<rparr> \<rparr>"

definition example_hit :: CodeResult where
  "example_hit =
     \<lparr> FileName = Some ''a.go'',
       Path = Some ''/src/a.go'',
       Project = Some \<lparr> Project_Name = Some ''HCC'' \<rparr>,
       Repository = Some \<lparr> Repository_Name = Some ''Svc'' \<rparr> \<rparr>"

text \<open>
  A listing of three repositories, two of which fold to the same name, and a
  file of the second.
\<close>

definition example_repos :: "GitRepository list" where
  "example_repos =
     [\<lparr> Id = Some (UUID ''0001''), Name = Some ''Other'' \<rparr>,
      \<lparr> Id = Some (UUID ''0002''), Name = Some ''myrepo'' \<rparr>,
      \<lparr> Id = Some (UUID ''0003''), Name = Some ''MYREPO'' \<rparr>]"

definition example_item :: GitItem where
  "example_item = \<lparr> Content = Some ''# readme'' \<rparr>"

section \<open>The result mapping of searchRepository\<close>

lemma process_results_skip:
  "Repository hit = None \<or> Path hit = None \<or> FileName hit = None \<Longrightarrow>
   process_results (hit # rest) results = process_results rest results"
  by (auto split: option.splits)

lemma process_results_drop:
  "Repository hit = None \<or> Path hit = None \<or> FileName hit = None \<Longrightarrow>
   process_results (pre @ hit # post) results = process_results (pre @ post) results"
proof (induction pre arbitrary: results)
  case Nil
  then show ?case using process_results_skip by simp
next
  case (Cons a pre)
  then show ?case by (simp split: option.splits prod.splits)
qed

lemma process_results_origin:
  assumes "process_results hits acc = Returns records" and "rec \<in> set records"
  shows "rec \<in> set acc \<or>
   (\<exists>hit \<in> set hits. \<exists>repository project r p f pr.
      Repository hit = Some repository \<and> Repository_Name repository = Some r \<and>
      Path hit = Some p \<and> FileName hit = Some f \<and>
      Project hit = Some project \<and> Project_Name project = Some pr \<and>
      rec = [''repository'' \<mapsto> GoString r, ''path'' \<mapsto> GoString p,
             ''fileName'' \<mapsto> GoString f, ''project'' \<mapsto> GoString pr])"
proof -
  define Q where "Q = (\<lambda>hit::CodeResult. \<exists>repository project r p f pr.
      Repository hit = Some repository \<and> Repository_Name repository = Some r \<and>
      Path hit = Some p \<and> FileName hit = Some f \<and>
      Project hit = Some project \<and> Project_Name project = Some pr \<and>
      rec = [''repository'' \<mapsto> GoString r, ''path'' \<mapsto> GoString p,
             ''fileName'' \<mapsto> GoString f, ''project'' \<mapsto> GoString pr])"
  have "process_results hits acc = Returns records \<Longrightarrow> rec \<in> set acc \<or> (\<exists>hit \<in> set hits. Q hit)"
    for hits acc
  proof (induction hits arbitrary: acc)
    case Nil
    then show ?case using assms(2) by simp
  next
    case (Cons h hits)
    show ?case
    proof (cases "Repository h = None \<or> Path h = None \<or> FileName h = None")
      case True
      then have "process_results hits acc = Returns records"
        using Cons.prems process_results_skip by simp
      from Cons.IH [OF this] show ?thesis by auto
    next
      case False
      then obtain repository p f
        where h: "Repository h = Some repository" "Path h = Some p" "FileName h = Some f"
        by auto
      from Cons.prems h obtain r where r: "Repository_Name repository = Some r"
        by (cases "Repository_Name repository") auto
      from Cons.prems h r obtain project where pj: "Project h = Some project"
        by (cases "Project h") auto
      from Cons.prems h r pj obtain pr where pr: "Project_Name project = Some pr"
        by (cases "Project_Name project") auto
      define m where "m = [''repository'' \<mapsto> GoString r, ''path'' \<mapsto> GoString p,
               ''fileName'' \<mapsto> GoString f, ''project'' \<mapsto> GoString pr]"
      have "process_results hits (acc @ [m]) = Returns records"
        using Cons.prems h r pj pr by (simp add: m_def)
      from Cons.IH [OF this]
      have "rec \<in> set acc \<or> rec = m \<or> (\<exists>hit \<in> set hits. Q hit)" by auto
      moreover have "Q h" if "rec = m"
        unfolding Q_def using that h r pj pr m_def by blast
      ultimately show ?thesis by auto
    qed
  qed
  from this [OF assms(1)] show ?thesis unfolding Q_def .
qed

lemma search_args_config:
  "config c' = config c \<Longrightarrow> search_args c' query repoName = search_args c query repoName"
  by (simp add: search_args_def search_filters_def)

section \<open>Search: which hits become records\<close>

text \<open>
  Claim C1. When the upstream search answers with a list of hits and
  \<^verbatim>\<open>searchRepository\<close> returns a sequence of records, every record of that
  sequence was built from a hit of the answer in which all four fields are
  present (the repository with its name, the path, the file name, the project
  with its name), and it carries exactly those four values. A hit whose
  repository, path or file-name pointer is nil is dropped silently: the whole
  call behaves exactly as it does on the answer without that hit, so the hit
  adds no record and causes neither an error nor a panic.
\<close>

theorem search_records_only_from_complete_hits:
  assumes fetch: "FetchCodeSearchResults (searchClient c) (search_args c query repoName) = (Some response, None)"
    and hits: "Results response = Some hits"
  shows
    "(\<forall>records calls rec.
        searchRepository c query repoName = (Returns (Some records, None), calls) \<and> rec \<in> set records \<longrightarrow>
        (\<exists>hit \<in> set hits. \<exists>repository project r p f pr.
           Repository hit = Some repository \<and> Repository_Name repository = Some r \<and>
           Path hit = Some p \<and> FileName hit = Some f \<and>
           Project hit = Some project \<and> Project_Name project = Some pr \<and>
           rec = [''repository'' \<mapsto> GoString r, ''path'' \<mapsto> GoString p,
                  ''fileName'' \<mapsto> GoString f, ''project'' \<mapsto> GoString pr])) \<and>
     (\<forall>c' response' pre hit post.
        config c' = config c \<and>
        FetchCodeSearchResults (searchClient c') (search_args c query repoName) = (Some response', None) \<and>
        Results response' = Some (pre @ post) \<and>
        hits = pre @ hit # post \<and>
        (Repository hit = None \<or> Path hit = None \<or> FileName hit = None) \<longrightarrow>
        searchRepository c query repoName = searchRepository c' query repoName)"
proof (intro conjI allI impI)
  fix records calls rec
  assume a: "searchRepository c query repoName = (Returns (Some records, None), calls) \<and> rec \<in> set records"
  then have "process_results hits [] = Returns records"
    using fetch hits by (simp add: searchRepository_def Let_def split: outcome.splits)
  from process_results_origin [OF this, of rec] a
  show "\<exists>hit \<in> set hits. \<exists>repository project r p f pr.
           Repository hit = Some repository \<and> Repository_Name repository = Some r \<and>
           Path hit = Some p \<and> FileName hit = Some f \<and>
           Project hit = Some project \<and> Project_Name project = Some pr \<and>
           rec = [''repository'' \<mapsto> GoString r, ''path'' \<mapsto> GoString p,
                  ''fileName'' \<mapsto> GoString f, ''project'' \<mapsto> GoString pr]"
    by simp
next
  fix c' :: AzureDevOpsClient and response' :: CodeSearchResponse and pre hit post
  assume a: "config c' = config c \<and>
        FetchCodeSearchResults (searchClient c') (search_args c query repoName) = (Some response', None) \<and>
        Results response' = Some (pre @ post) \<and>
        hits = pre @ hit # post \<and>
        (Repository hit = None \<or> Path hit = None \<or> FileName hit = None)"
  then have args: "search_args c' query repoName = search_args c query repoName"
    using search_args_config by blast
  from a have "process_results hits [] = process_results (pre @ post) []"
    using process_results_drop by blast
  then show "searchRepository c query repoName = searchRepository c' query repoName"
    using a fetch hits args by (simp add: searchRepository_def Let_def)
qed

text \<open>
  The theorem at an answer of two hits, the first without a path: the call
  returns the one record of the second hit, and equals the call on the answer
  that holds the second hit alone.
\<close>

theorem search_records_only_from_complete_hits_witness:
  "searchRepository
     (stub_client (Some \<lparr> Count = Some 2, Results = Some [example_hit \<lparr> Path := None \<rparr>, example_hit] \<rparr>, None)
        (None, None) (None, None))
     ''TODO'' '''' =
   (Returns (Some [[''repository'' \<mapsto> GoString ''Svc'', ''path'' \<mapsto> GoString ''/src/a.go'',
                    ''fileName'' \<mapsto> GoString ''a.go'', ''project'' \<mapsto> GoString ''HCC'']], None),
    [Call_FetchCodeSearchResults (search_args (stub_client (None, None) (None, None) (None, None)) ''TODO'' '''')]) \<and>
   (\<exists>hit \<in> set [example_hit \<lparr> Path := None \<rparr>, example_hit]. \<exists>repository project r p f pr.
      Repository hit = Some repository \<and> Repository_Name repository = Some r \<and>
      Path hit = Some p \<and> FileName hit = Some f \<and>
      Project hit = Some project \<and> Project_Name project = Some pr \<and>
      [''repository'' \<mapsto> GoString ''Svc'', ''path'' \<mapsto> GoString ''/src/a.go'',
       ''fileName'' \<mapsto> GoString ''a.go'', ''project'' \<mapsto> GoString ''HCC''] =
      [''repository'' \<mapsto> GoString r, ''path'' \<mapsto> GoString p,
       ''fileName'' \<mapsto> GoString f, ''project'' \<mapsto> GoString pr]) \<and>
   searchRepository
     (stub_client (Some \<lparr> Count = Some 2, Results = Some [example_hit \<lparr> Path := None \<rparr>, example_hit] \<rparr>, None)
        (None, None) (None, None))
     ''TODO'' '''' =
   searchRepository
     (stub_client (Some \<lparr> Count = Some 1, Results = Some [example_hit] \<rparr>, None) (None, None) (None, None))
     ''TODO'' ''''"
proof -
  let ?c = "stub_client (Some \<lparr> Count = Some 2, Results = Some [example_hit \<lparr> Path := None \<rparr>, example_hit] \<rparr>, None)
              (None, None) (None, None)"
  let ?c' = "stub_client (Some \<lparr> Count = Some 1, Results = Some [example_hit] \<rparr>, None) (None, None) (None, None)"
  let ?rec = "[''repository'' \<mapsto> GoString ''Svc'', ''path'' \<mapsto> GoString ''/src/a.go'',
               ''fileName'' \<mapsto> GoString ''a.go'', ''project'' \<mapsto> GoString ''HCC'']"
  let ?calls = "[Call_FetchCodeSearchResults (search_args (stub_client (None, None) (None, None) (None, None)) ''TODO'' '''')]"
  have run: "searchRepository ?c ''TODO'' '''' = (Returns (Some [?rec], None), ?calls)"
    by (simp add: searchRepository_def stub_client_def example_hit_def search_args_def search_filters_def)
  have fetch: "FetchCodeSearchResults (searchClient ?c) (search_args ?c ''TODO'' '''') =
      (Some \<lparr> Count = Some 2, Results = Some [example_hit \<lparr> Path := None \<rparr>, example_hit] \<rparr>, None)"
    by (simp add: stub_client_def)
  have hits: "Results \<lparr> Count = Some 2, Results = Some [example_hit \<lparr> Path := None \<rparr>, example_hit] \<rparr> =
      Some [example_hit \<lparr> Path := None \<rparr>, example_hit]"
    by simp
  note main = search_records_only_from_complete_hits [OF fetch hits]
  from main [THEN conjunct1, rule_format, of "[?rec]" ?calls ?rec] run
  have origin: "\<exists>hit \<in> set [example_hit \<lparr> Path := None \<rparr>, example_hit]. \<exists>repository project r p f pr.
      Repository hit = Some repository \<and> Repository_Name repository = Some r \<and>
      Path hit = Some p \<and> FileName hit = Some f \<and>
      Project hit = Some project \<and> Project_Name project = Some pr \<and>
      ?rec = [''repository'' \<mapsto> GoString r, ''path'' \<mapsto> GoString p,
              ''fileName'' \<mapsto> GoString f, ''project'' \<mapsto> GoString pr]"
    by simp
  from main [THEN conjunct2, rule_format, where c' = ?c'
               and response' = "\<lparr> Count = Some 1, Results = Some [example_hit] \<rparr>"
               and pre = "[]" and hit = "example_hit \<lparr> Path := None \<rparr>" and post = "[example_hit]"]
  have same: "searchRepository ?c ''TODO'' '''' = searchRepository ?c' ''TODO'' ''''"
    by (simp add: stub_client_def)
  from run origin same show ?thesis by blast
qed

section \<open>Search: the unguarded dereferences\<close>

text \<open>
  Claim C9. The guard of the result loop tests the repository, path and
  file-name pointers only; the map literal then also dereferences
  \<^verbatim>\<open>result.Repository.Name\<close> and \<^verbatim>\<open>result.Project.Name\<close>. So the
  dereferences are not safe for every hit: on an answer whose only hit has a
  repository, a path and a file name but a nil project, the call panics after
  the upstream request, instead of returning.
\<close>

theorem searchRepository_nil_project_panics:
  "searchRepository
     (stub_client (Some \<lparr> Count = Some 1, Results = Some [example_hit \<lparr> Project := None \<rparr>] \<rparr>, None)
        (None, None) (None, None))
     ''TODO'' '''' =
   (Panics,
    [Call_FetchCodeSearchResults (search_args (stub_client (None, None) (None, None) (None, None)) ''TODO'' '''')])"
  by (simp add: searchRepository_def stub_client_def example_hit_def search_args_def search_filters_def)

section \<open>Search: the request and the arguments\<close>

lemma assert_string_not_string:
  "(\<forall>s. v \<noteq> Some (GoString s)) \<Longrightarrow> assert_string v = ('''', False)"
  by (cases v rule: assert_string.cases) auto

lemma searchRepository_calls:
  "snd (searchRepository c query repoName) = [Call_FetchCodeSearchResults (search_args c query repoName)]"
  by (simp add: searchRepository_def Let_def split: prod.splits option.splits outcome.splits)

lemma search_handler_calls:
  "Arguments ''query'' = Some (GoString query) \<Longrightarrow>
   snd (search_handler marshal_map c Arguments) =
     [Call_FetchCodeSearchResults (search_args c query (fst (assert_string (Arguments ''repo''))))]"
  using searchRepository_calls [of c query "fst (assert_string (Arguments ''repo''))"]
  by (auto simp: search_handler_def Let_def split: prod.splits option.splits outcome.splits)

text \<open>
  Claim C5. Every call of \<^verbatim>\<open>searchRepository\<close> issues exactly one upstream
  request, a code search in the configured project. Its filter map has the
  key \<^verbatim>\<open>Project\<close> with the configured project, has the key
  \<^verbatim>\<open>Repository\<close> (with the given name) exactly when \<open>repoName\<close> is not
  empty, and has no other key; the search text is the query, the result cap
  is 1000 and the snippet flag is true.
\<close>

theorem search_request_shape:
  "\<exists>request filters.
     snd (searchRepository c query repoName) =
       [Call_FetchCodeSearchResults
          \<lparr> Search_Request = Some request, Search_Project = Some (AzureDevOps_Project (config c)) \<rparr>] \<and>
     Filters request = Some filters \<and>
     filters ''Project'' = Some [AzureDevOps_Project (config c)] \<and>
     filters ''Repository'' = (if repoName = '''' then None else Some [repoName]) \<and>
     dom filters \<subseteq> {''Project'', ''Repository''} \<and>
     SearchText request = Some query \<and>
     Top request = Some 1000 \<and>
     IncludeSnippet request = Some True"
  by (auto simp: searchRepository_calls search_args_def search_filters_def Let_def split: if_splits)

text \<open>The request of a search for \<^verbatim>\<open>TODO\<close> in repository \<^verbatim>\<open>Svc\<close>.\<close>

theorem search_request_shape_witness:
  "\<exists>request filters.
     snd (searchRepository (stub_client (None, None) (None, None) (None, None)) ''TODO'' ''Svc'') =
       [Call_FetchCodeSearchResults \<lparr> Search_Request = Some request, Search_Project = Some ''HCC'' \<rparr>] \<and>
     Filters request = Some filters \<and>
     filters ''Project'' = Some [''HCC''] \<and>
     filters ''Repository'' = Some [''Svc''] \<and>
     dom filters \<subseteq> {''Project'', ''Repository''} \<and>
     SearchText request = Some ''TODO'' \<and>
     Top request = Some 1000 \<and>
     IncludeSnippet request = Some True"
  using search_request_shape [of "stub_client (None, None) (None, None) (None, None)" "''TODO''" "''Svc''"]
  by (simp add: stub_client_def example_config_def)

text \<open>
  Claim C6. When the upstream search returns no error and its answer is nil,
  has a nil result list or has an empty result list, \<^verbatim>\<open>searchRepository\<close>
  returns the empty, non-nil slice with a nil error, and the search handler
  called with that query returns the text \<^verbatim>\<open>[]\<close>, the empty JSON array,
  with a nil error.
\<close>

theorem empty_search_answer_is_success:
  assumes fetch: "FetchCodeSearchResults (searchClient c) (search_args c query repoName) = (response, None)"
    and empty: "response = None \<or> (\<exists>r. response = Some r \<and> (Results r = None \<or> Results r = Some []))"
  shows
    "fst (searchRepository c query repoName) = Returns (Some [], None) \<and>
     (\<forall>Arguments marshal_map.
        Arguments ''query'' = Some (GoString query) \<and> fst (assert_string (Arguments ''repo'')) = repoName \<longrightarrow>
        fst (search_handler marshal_map c Arguments) = Returns (Some (NewToolResultText ''[]''), None))"
proof -
  have run: "searchRepository c query repoName =
      (Returns (Some [], None), [Call_FetchCodeSearchResults (search_args c query repoName)])"
    using fetch empty by (auto simp: searchRepository_def Let_def)
  then show ?thesis
    by (auto simp: search_handler_def Let_def)
qed

text \<open>An answer with an empty result list, and the handler run on it.\<close>

theorem empty_search_answer_is_success_witness:
  "fst (searchRepository
          (stub_client (Some \<lparr> Count = Some 0, Results = Some [] \<rparr>, None) (None, None) (None, None))
          ''TODO'' '''') = Returns (Some [], None) \<and>
   fst (search_handler (\<lambda>_. ''{}'')
          (stub_client (Some \<lparr> Count = Some 0, Results = Some [] \<rparr>, None) (None, None) (None, None))
          [''query'' \<mapsto> GoString ''TODO'']) = Returns (Some (NewToolResultText ''[]''), None)"
proof -
  let ?c = "stub_client (Some \<lparr> Count = Some 0, Results = Some [] \<rparr>, None) (None, None) (None, None)"
  have fetch: "FetchCodeSearchResults (searchClient ?c) (search_args ?c ''TODO'' '''') =
      (Some \<lparr> Count = Some 0, Results = Some [] \<rparr>, None)"
    by (simp add: stub_client_def)
  have empty: "Some \<lparr> Count = Some 0, Results = Some ([] :: CodeResult list) \<rparr> = None \<or>
      (\<exists>r. Some \<lparr> Count = Some 0, Results = Some [] \<rparr> = Some r \<and> (Results r = None \<or> Results r = Some []))"
    by simp
  note main = empty_search_answer_is_success [OF fetch empty]
  from main [THEN conjunct2, rule_format, of "[''query'' \<mapsto> GoString ''TODO'']" "\<lambda>_. ''{}''"]
  have "fst (search_handler (\<lambda>_. ''{}'') ?c [''query'' \<mapsto> GoString ''TODO'']) =
      Returns (Some (NewToolResultText ''[]''), None)"
    by simp
  with main [THEN conjunct1] show ?thesis by simp
qed

text \<open>
  Claim C8. In a search call with a string \<^verbatim>\<open>query\<close>, a \<^verbatim>\<open>repo\<close> argument
  that is absent or not a string is read as the empty string without any
  error: the handler behaves exactly as it does when \<^verbatim>\<open>repo\<close> is the empty
  string, and it issues the upstream search for that query with no
  \<^verbatim>\<open>Repository\<close> filter.
\<close>

theorem repo_argument_defaults_to_empty:
  assumes query: "Arguments ''query'' = Some (GoString query)"
    and repo: "\<forall>s. Arguments ''repo'' \<noteq> Some (GoString s)"
  shows
    "search_handler marshal_map c Arguments =
       search_handler marshal_map c (Arguments(''repo'' \<mapsto> GoString '''')) \<and>
     (\<exists>request filters.
        snd (search_handler marshal_map c Arguments) =
          [Call_FetchCodeSearchResults
             \<lparr> Search_Request = Some request, Search_Project = Some (AzureDevOps_Project (config c)) \<rparr>] \<and>
        SearchText request = Some query \<and>
        Filters request = Some filters \<and>
        filters ''Repository'' = None)"
proof -
  have r: "assert_string (Arguments ''repo'') = ('''', False)"
    using repo assert_string_not_string by blast
  have "search_handler marshal_map c Arguments =
       search_handler marshal_map c (Arguments(''repo'' \<mapsto> GoString ''''))"
    using query r by (simp add: search_handler_def)
  moreover have "snd (search_handler marshal_map c Arguments) =
      [Call_FetchCodeSearchResults (search_args c query '''')]"
    using search_handler_calls [where Arguments = Arguments and query = query and marshal_map = marshal_map and c = c]
      query r by simp
  ultimately show ?thesis
    by (simp add: search_args_def search_filters_def)
qed

text \<open>A search whose \<^verbatim>\<open>repo\<close> argument is a number.\<close>

theorem repo_argument_defaults_to_empty_witness:
  "search_handler (\<lambda>_. ''{}'') (stub_client (None, None) (None, None) (None, None))
     [''query'' \<mapsto> GoString ''TODO'', ''repo'' \<mapsto> GoFloat64 7] =
   search_handler (\<lambda>_. ''{}'') (stub_client (None, None) (None, None) (None, None))
     [''query'' \<mapsto> GoString ''TODO'', ''repo'' \<mapsto> GoString ''''] \<and>
   (\<exists>request filters.
      snd (search_handler (\<lambda>_. ''{}'') (stub_client (None, None) (None, None) (None, None))
             [''query'' \<mapsto> GoString ''TODO'', ''repo'' \<mapsto> GoFloat64 7]) =
        [Call_FetchCodeSearchResults \<lparr> Search_Request = Some request, Search_Project = Some ''HCC'' \<rparr>] \<and>
      SearchText request = Some ''TODO'' \<and>
      Filters request = Some filters \<and>
      filters ''Repository'' = None)"
proof -
  let ?A = "[''query'' \<mapsto> GoString ''TODO'', ''repo'' \<mapsto> GoFloat64 7]"
  let ?c = "stub_client (None, None) (None, None) (None, None)"
  have query: "?A ''query'' = Some (GoString ''TODO'')" by simp
  have repo: "\<forall>s. ?A ''repo'' \<noteq> Some (GoString s)" by simp
  have upd: "?A(''repo'' \<mapsto> GoString '''') = [''query'' \<mapsto> GoString ''TODO'', ''repo'' \<mapsto> GoString '''']"
    by simp
  have project: "AzureDevOps_Project (config ?c) = ''HCC''"
    by (simp add: stub_client_def example_config_def)
  from repo_argument_defaults_to_empty [OF query repo, where marshal_map = "\<lambda>_. ''{}''" and c = ?c]
  show ?thesis unfolding upd project .
qed

section \<open>Validation of the required arguments\<close>

text \<open>
  Claim C4. The handlers test their required arguments before anything else.
  A search call whose \<^verbatim>\<open>query\<close> is absent or not a string returns the error
  \<^verbatim>\<open>query must be a string\<close>; a read call whose \<^verbatim>\<open>repository\<close> is
  absent or not a string returns \<^verbatim>\<open>repository must be a string\<close>; a read
  call with a string \<^verbatim>\<open>repository\<close> whose \<^verbatim>\<open>path\<close> is absent or not a
  string returns \<^verbatim>\<open>path must be a string\<close>. In all three the list of
  upstream requests is empty. These errors are the validation errors of the
  specification.
\<close>

theorem required_arguments_checked_before_upstream:
  "((\<forall>s. Arguments ''query'' \<noteq> Some (GoString s)) \<longrightarrow>
      search_handler marshal_map c Arguments =
        (Returns (None, Some (errors_New ''query must be a string'')), [])) \<and>
   ((\<forall>s. Arguments ''repository'' \<noteq> Some (GoString s)) \<longrightarrow>
      read_handler hasUnicode c Arguments =
        (Returns (None, Some (errors_New ''repository must be a string'')), [])) \<and>
   ((\<exists>r. Arguments ''repository'' = Some (GoString r)) \<and> (\<forall>s. Arguments ''path'' \<noteq> Some (GoString s)) \<longrightarrow>
      read_handler hasUnicode c Arguments =
        (Returns (None, Some (errors_New ''path must be a string'')), []))"
proof (intro conjI impI)
  assume "\<forall>s. Arguments ''query'' \<noteq> Some (GoString s)"
  then have "assert_string (Arguments ''query'') = ('''', False)"
    by (rule assert_string_not_string)
  then show "search_handler marshal_map c Arguments =
        (Returns (None, Some (errors_New ''query must be a string'')), [])"
    by (simp add: search_handler_def)
next
  assume "\<forall>s. Arguments ''repository'' \<noteq> Some (GoString s)"
  then have "assert_string (Arguments ''repository'') = ('''', False)"
    by (rule assert_string_not_string)
  then show "read_handler hasUnicode c Arguments =
        (Returns (None, Some (errors_New ''repository must be a string'')), [])"
    by (simp add: read_handler_def)
next
  assume a: "(\<exists>r. Arguments ''repository'' = Some (GoString r)) \<and> (\<forall>s. Arguments ''path'' \<noteq> Some (GoString s))"
  then have "assert_string (Arguments ''path'') = ('''', False)"
    using assert_string_not_string by blast
  with a show "read_handler hasUnicode c Arguments =
        (Returns (None, Some (errors_New ''path must be a string'')), [])"
    by (auto simp: read_handler_def)
qed

text \<open>
  A search with a numeric query, a read without a repository and a read
  without a path, on an upstream that would answer every request.
\<close>

theorem required_arguments_checked_before_upstream_witness:
  "search_handler (\<lambda>_. ''{}'')
     (stub_client (Some \<lparr> Count = Some 1, Results = Some [example_hit] \<rparr>, None) (None, None) (None, None))
     [''query'' \<mapsto> GoFloat64 1] =
     (Returns (None, Some (errors_New ''query must be a string'')), []) \<and>
   read_handler (\<lambda>_ _. False)
     (stub_client (None, None)
        (Some [\<lparr> Id = Some (UUID ''0001''), Name = Some ''Svc'' \<rparr>], None)
        (Some \<lparr> Content = Some ''package a'' \<rparr>, None))
     [''path'' \<mapsto> GoString ''/src/a.go''] =
     (Returns (None, Some (errors_New ''repository must be a string'')), []) \<and>
   read_handler (\<lambda>_ _. False)
     (stub_client (None, None)
        (Some [\<lparr> Id = Some (UUID ''0001''), Name = Some ''Svc'' \<rparr>], None)
        (Some \<lparr> Content = Some ''package a'' \<rparr>, None))
     [''repository'' \<mapsto> GoString ''Svc''] =
     (Returns (None, Some (errors_New ''path must be a string'')), [])"
proof -
  let ?cs = "stub_client (Some \<lparr> Count = Some 1, Results = Some [example_hit] \<rparr>, None) (None, None) (None, None)"
  let ?cr = "stub_client (None, None)
        (Some [\<lparr> Id = Some (UUID ''0001''), Name = Some ''Svc'' \<rparr>], None)
        (Some \<lparr> Content = Some ''package a'' \<rparr>, None)"
  from required_arguments_checked_before_upstream
    [where Arguments = "[''query'' \<mapsto> GoFloat64 1]" and marshal_map = "\<lambda>_. ''{}''" and c = ?cs,
     THEN conjunct1]
  have 1: "search_handler (\<lambda>_. ''{}'') ?cs [''query'' \<mapsto> GoFloat64 1] =
     (Returns (None, Some (errors_New ''query must be a string'')), [])"
    by simp
  from required_arguments_checked_before_upstream
    [where Arguments = "[''path'' \<mapsto> GoString ''/src/a.go'']" and hasUnicode = "\<lambda>_ _. False" and c = ?cr,
     THEN conjunct2, THEN conjunct1]
  have 2: "read_handler (\<lambda>_ _. False) ?cr [''path'' \<mapsto> GoString ''/src/a.go''] =
     (Returns (None, Some (errors_New ''repository must be a string'')), [])"
    by simp
  from required_arguments_checked_before_upstream
    [where Arguments = "[''repository'' \<mapsto> GoString ''Svc'']" and hasUnicode = "\<lambda>_ _. False" and c = ?cr,
     THEN conjunct2, THEN conjunct2]
  have 3: "read_handler (\<lambda>_ _. False) ?cr [''repository'' \<mapsto> GoString ''Svc''] =
     (Returns (None, Some (errors_New ''path must be a string'')), [])"
    by simp
  from 1 2 3 show ?thesis by simp
qed

section \<open>EqualFold on ASCII names\<close>

lemma or_ascii:
  assumes "(a :: 8 word) < 0x80" and "b < 0x80"
  shows "\<not> RuneSelf \<le> a OR b"
proof -
  have "uint a < 2 ^ 7" and "uint b < 2 ^ 7"
    using assms by (simp_all add: word_less_def)
  then have "uint a OR uint b < 2 ^ 7"
    by (intro OR_upper) simp_all
  then have "uint (a OR b) < 128"
    by (simp add: uint_or)
  then show ?thesis
    by (simp add: RuneSelf_def word_le_def)
qed

lemma unat_add32: "(a :: 8 word) < 0x80 \<Longrightarrow> unat (a + 0x20) = unat a + 32"
  by (simp add: unat_word_ariths word_less_nat_alt)

lemma unat_add32': "(a :: 8 word) < 0x80 \<Longrightarrow> unat (0x20 + a) = unat a + 32"
  using unat_add32 [of a] by (simp add: add.commute)

lemma ascii_fold_pair_lower:
  assumes "(a :: 8 word) < 0x80" and "b < 0x80" and "a \<noteq> b"
  shows "ascii_fold_pair a b \<longleftrightarrow> spec_ascii_lower a = spec_ascii_lower b"
proof -
  have ne: "unat a \<noteq> unat b"
    using assms(3) by (simp add: word_unat_eq_iff)
  have la: "unat a < 128" and lb: "unat b < 128"
    using assms(1,2) by (simp_all add: word_less_nat_alt)
  have "ascii_fold_pair a b \<longleftrightarrow>
      (let lo = min (unat a) (unat b); hi = max (unat a) (unat b)
       in 65 \<le> lo \<and> lo \<le> 90 \<and> hi = lo + 32)"
    using assms(1,2) unat_add32 [of a] unat_add32 [of b] unat_add32' [of a] unat_add32' [of b]
    by (auto simp: ascii_fold_pair_def Let_def word_le_nat_alt word_less_nat_alt word_unat_eq_iff
          min_def max_def)
  moreover have "spec_ascii_lower a = spec_ascii_lower b \<longleftrightarrow>
      (if 65 \<le> unat a \<and> unat a \<le> 90 then unat a + 32 else unat a) =
      (if 65 \<le> unat b \<and> unat b \<le> 90 then unat b + 32 else unat b)"
    using assms(1,2) unat_add32 [of a] unat_add32 [of b] unat_add32' [of a] unat_add32' [of b]
    by (auto simp: spec_ascii_lower_def word_le_nat_alt word_unat_eq_iff)
  ultimately show ?thesis
    using ne la lb by (auto simp: Let_def min_def max_def split: if_splits)
qed

lemma EqualFold_ascii:
  "(\<forall>ch \<in> set s \<union> set t. byte ch < 0x80) \<Longrightarrow>
   EqualFold hasUnicode s t \<longleftrightarrow> spec_equal_ignoring_case s t"
  unfolding spec_equal_ignoring_case_def
proof (induction hasUnicode s t rule: EqualFold.induct)
  case (4 hasUnicode x s y t)
  have x: "byte x < 0x80" and y: "byte y < 0x80"
    using "4.prems" by simp_all
  have rest: "\<forall>ch \<in> set s \<union> set t. byte ch < 0x80"
    using "4.prems" by simp
  have no: "\<not> RuneSelf \<le> byte x OR byte y"
    using or_ascii [OF x y] .
  show ?case
  proof (cases "byte y = byte x")
    case True
    with no "4.IH"(1) rest show ?thesis by simp
  next
    case False
    then have ne: "byte x \<noteq> byte y" by simp
    show ?thesis
    proof (cases "ascii_fold_pair (byte x) (byte y)")
      case True
      with no False "4.IH"(2) rest ascii_fold_pair_lower [OF x y ne] show ?thesis by simp
    next
      case f: False
      with no False ascii_fold_pair_lower [OF x y ne] show ?thesis by simp
    qed
  qed
qed simp_all

section \<open>Read: resolving the repository\<close>

lemma find_target_repo_first:
  "(\<forall>r \<in> set pre. \<exists>n. Name r = Some n \<and> \<not> EqualFold hasUnicode n repoName) \<Longrightarrow>
   Name repo = Some name \<Longrightarrow> EqualFold hasUnicode name repoName \<Longrightarrow>
   find_target_repo hasUnicode (pre @ repo # post) repoName = Returns (Some repo)"
  by (induction pre) auto

lemma find_target_repo_none:
  "(\<forall>r \<in> set repos. \<exists>n. Name r = Some n \<and> \<not> EqualFold hasUnicode n repoName) \<Longrightarrow>
   find_target_repo hasUnicode repos repoName = Returns None"
  by (induction repos) auto

lemma fetch_item_calls:
  "Id repo = Some uuid \<Longrightarrow> snd (fetch_item c repo path) = [Call_GetItem (item_args c (UUID_String uuid) path)]"
  by (simp add: fetch_item_def Let_def split: prod.splits option.splits)

lemma fetch_item_calls_shape:
  "call \<in> set (snd (fetch_item c repo path)) \<Longrightarrow>
   \<exists>uuid. Id repo = Some uuid \<and> call = Call_GetItem (item_args c (UUID_String uuid) path)"
  by (auto simp: fetch_item_def Let_def split: prod.splits option.splits)

lemma getFileContent_found:
  "GetRepositories (gitClient c) (repositories_args c) = (Some repos, None) \<Longrightarrow>
   find_target_repo hasUnicode repos repoName = Returns (Some repo) \<Longrightarrow>
   getFileContent hasUnicode c repoName path =
     (fst (fetch_item c repo path),
      Call_GetRepositories (repositories_args c) # snd (fetch_item c repo path))"
  by (simp add: getFileContent_def Let_def split_beta)

lemma getFileContent_calls_shape:
  assumes "call \<in> set (snd (getFileContent hasUnicode c repoName path))"
  shows "call = Call_GetRepositories (repositories_args c) \<or>
   (\<exists>repoID. call = Call_GetItem (item_args c repoID path))"
proof (cases "\<exists>repos repo. GetRepositories (gitClient c) (repositories_args c) = (Some repos, None) \<and>
    find_target_repo hasUnicode repos repoName = Returns (Some repo)")
  case True
  then obtain repos repo where
    "GetRepositories (gitClient c) (repositories_args c) = (Some repos, None)"
    "find_target_repo hasUnicode repos repoName = Returns (Some repo)" by blast
  from getFileContent_found [OF this, of path] assms
  have "call = Call_GetRepositories (repositories_args c) \<or> call \<in> set (snd (fetch_item c repo path))"
    by simp
  then show ?thesis using fetch_item_calls_shape by blast
next
  case False
  then have "snd (getFileContent hasUnicode c repoName path) = [Call_GetRepositories (repositories_args c)]"
    by (auto simp: getFileContent_def Let_def split: prod.splits option.splits outcome.splits)
  with assms show ?thesis by simp
qed

lemma read_handler_calls:
  "assert_string (Arguments ''repository'') = (repo, True) \<Longrightarrow>
   assert_string (Arguments ''path'') = (path, True) \<Longrightarrow>
   snd (read_handler hasUnicode c Arguments) = snd (getFileContent hasUnicode c repo path)"
  by (cases "getFileContent hasUnicode c repo path")
     (auto simp: read_handler_def split: outcome.splits option.splits)

lemma example_names_fold:
  "\<not> EqualFold hasUnicode ''Other'' ''MyRepo''"
  "EqualFold hasUnicode ''myrepo'' ''MyRepo''"
  "\<not> EqualFold hasUnicode ''Other'' ''Nope''"
  "\<not> EqualFold hasUnicode ''myrepo'' ''Nope''"
  "\<not> EqualFold hasUnicode ''MYREPO'' ''Nope''"
  by (simp_all add: byte_def RuneSelf_def ascii_fold_pair_def)

text \<open>
  Claim C2. \<^verbatim>\<open>getFileContent\<close> asks the upstream for the repositories of the
  configured project and scans the listing in order. When the listing is
  \<open>pre @ repo # post\<close>, no name in \<open>pre\<close> folds to the requested name and the
  name of \<open>repo\<close> does, the file is fetched from \<open>repo\<close>: the requests are
  the listing and then one item request whose repository id is the id of
  \<open>repo\<close>. When no name of the listing folds to the requested name, the
  function returns the empty content with the error
  \<^verbatim>\<open>repository not found: <name>\<close>, and the listing is the only request, so no
  file is fetched. The comparison is \<^verbatim>\<open>strings.EqualFold\<close>, which on ASCII
  names is equality after lower-casing the letters.
\<close>

theorem repository_resolution_first_match:
  assumes listing:
    "GetRepositories (gitClient c)
       \<lparr> Repos_Project = Some (AzureDevOps_Project (config c)),
         IncludeLinks = None, IncludeAllUrls = None, IncludeHidden = None \<rparr> = (Some repos, None)"
  shows
    "(\<forall>pre repo post name uuid.
        repos = pre @ repo # post \<and>
        (\<forall>r \<in> set pre. \<exists>n. Name r = Some n \<and> \<not> EqualFold hasUnicode n repoName) \<and>
        Name repo = Some name \<and> EqualFold hasUnicode name repoName \<and> Id repo = Some uuid \<longrightarrow>
        (\<exists>request.
           snd (getFileContent hasUnicode c repoName path) =
             [Call_GetRepositories
                \<lparr> Repos_Project = Some (AzureDevOps_Project (config c)),
                  IncludeLinks = None, IncludeAllUrls = None, IncludeHidden = None \<rparr>,
              Call_GetItem request] \<and>
           RepositoryId request = Some (UUID_String uuid))) \<and>
     ((\<forall>r \<in> set repos. \<exists>n. Name r = Some n \<and> \<not> EqualFold hasUnicode n repoName) \<longrightarrow>
        getFileContent hasUnicode c repoName path =
          (Returns ('''', Some (errors_New (''repository not found: '' @ repoName))),
           [Call_GetRepositories
              \<lparr> Repos_Project = Some (AzureDevOps_Project (config c)),
                IncludeLinks = None, IncludeAllUrls = None, IncludeHidden = None \<rparr>])) \<and>
     (\<forall>name. (\<forall>ch \<in> set name \<union> set repoName. byte ch < 0x80) \<longrightarrow>
        EqualFold hasUnicode name repoName = spec_equal_ignoring_case name repoName)"
proof (intro conjI allI impI)
  fix pre repo post name uuid
  assume a: "repos = pre @ repo # post \<and>
        (\<forall>r \<in> set pre. \<exists>n. Name r = Some n \<and> \<not> EqualFold hasUnicode n repoName) \<and>
        Name repo = Some name \<and> EqualFold hasUnicode name repoName \<and> Id repo = Some uuid"
  then have found: "find_target_repo hasUnicode repos repoName = Returns (Some repo)"
    using find_target_repo_first by blast
  from a have "snd (fetch_item c repo path) = [Call_GetItem (item_args c (UUID_String uuid) path)]"
    using fetch_item_calls by blast
  moreover have "GetRepositories (gitClient c) (repositories_args c) = (Some repos, None)"
    using listing by (simp add: repositories_args_def)
  ultimately have
    "snd (getFileContent hasUnicode c repoName path) =
       [Call_GetRepositories (repositories_args c), Call_GetItem (item_args c (UUID_String uuid) path)]"
    using found getFileContent_found by simp
  then show "\<exists>request.
           snd (getFileContent hasUnicode c repoName path) =
             [Call_GetRepositories
                \<lparr> Repos_Project = Some (AzureDevOps_Project (config c)),
                  IncludeLinks = None, IncludeAllUrls = None, IncludeHidden = None \<rparr>,
              Call_GetItem request] \<and>
           RepositoryId request = Some (UUID_String uuid)"
    by (simp add: repositories_args_def item_args_def)
next
  assume "\<forall>r \<in> set repos. \<exists>n. Name r = Some n \<and> \<not> EqualFold hasUnicode n repoName"
  then have "find_target_repo hasUnicode repos repoName = Returns None"
    by (rule find_target_repo_none)
  with listing show "getFileContent hasUnicode c repoName path =
          (Returns ('''', Some (errors_New (''repository not found: '' @ repoName))),
           [Call_GetRepositories
              \<lparr> Repos_Project = Some (AzureDevOps_Project (config c)),
                IncludeLinks = None, IncludeAllUrls = None, IncludeHidden = None \<rparr>])"
    by (simp add: getFileContent_def repositories_args_def Let_def)
next
  fix name
  assume "\<forall>ch \<in> set name \<union> set repoName. byte ch < 0x80"
  then show "EqualFold hasUnicode name repoName = spec_equal_ignoring_case name repoName"
    by (rule EqualFold_ascii)
qed

text \<open>
  Resolving \<^verbatim>\<open>MyRepo\<close> in the example listing picks \<^verbatim>\<open>myrepo\<close>, the first
  of the two names that fold to it; resolving \<^verbatim>\<open>Nope\<close> fails after the
  listing alone.
\<close>

theorem repository_resolution_first_match_witness:
  "(\<exists>request.
      snd (getFileContent (\<lambda>_ _. False)
             (stub_client (None, None) (Some example_repos, None) (Some example_item, None))
             ''MyRepo'' ''/README.md'') =
        [Call_GetRepositories
           \<lparr> Repos_Project = Some ''HCC'', IncludeLinks = None, IncludeAllUrls = None, IncludeHidden = None \<rparr>,
         Call_GetItem request] \<and>
      RepositoryId request = Some ''0002'') \<and>
   getFileContent (\<lambda>_ _. False)
     (stub_client (None, None) (Some example_repos, None) (Some example_item, None))
     ''Nope'' ''/README.md'' =
     (Returns ('''', Some (errors_New ''repository not found: Nope'')),
      [Call_GetRepositories
         \<lparr> Repos_Project = Some ''HCC'', IncludeLinks = None, IncludeAllUrls = None, IncludeHidden = None \<rparr>]) \<and>
   EqualFold (\<lambda>_ _. False) ''myrepo'' ''MyRepo'' = spec_equal_ignoring_case ''myrepo'' ''MyRepo''"
proof -
  let ?c = "stub_client (None, None) (Some example_repos, None) (Some example_item, None)"
  have project: "AzureDevOps_Project (config ?c) = ''HCC''"
    by (simp add: stub_client_def example_config_def)
  have listing: "GetRepositories (gitClient ?c)
       \<lparr> Repos_Project = Some (AzureDevOps_Project (config ?c)),
         IncludeLinks = None, IncludeAllUrls = None, IncludeHidden = None \<rparr> = (Some example_repos, None)"
    by (simp add: stub_client_def)
  note main = repository_resolution_first_match [OF listing]
  have found: "example_repos =
        [\<lparr> Id = Some (UUID ''0001''), Name = Some ''Other'' \<rparr>] @
        \<lparr> Id = Some (UUID ''0002''), Name = Some ''myrepo'' \<rparr> #
        [\<lparr> Id = Some (UUID ''0003''), Name = Some ''MYREPO'' \<rparr>] \<and>
      (\<forall>r \<in> set [\<lparr> Id = Some (UUID ''0001''), Name = Some ''Other'' \<rparr>].
         \<exists>n. Name r = Some n \<and> \<not> EqualFold (\<lambda>_ _. False) n ''MyRepo'') \<and>
      Name \<lparr> Id = Some (UUID ''0002''), Name = Some ''myrepo'' \<rparr> = Some ''myrepo'' \<and>
      EqualFold (\<lambda>_ _. False) ''myrepo'' ''MyRepo'' \<and>
      Id \<lparr> Id = Some (UUID ''0002''), Name = Some ''myrepo'' \<rparr> = Some (UUID ''0002'')"
    by (simp add: example_repos_def example_names_fold del: EqualFold.simps)
  have 1: "\<exists>request.
      snd (getFileContent (\<lambda>_ _. False) ?c ''MyRepo'' ''/README.md'') =
        [Call_GetRepositories
           \<lparr> Repos_Project = Some ''HCC'', IncludeLinks = None, IncludeAllUrls = None, IncludeHidden = None \<rparr>,
         Call_GetItem request] \<and>
      RepositoryId request = Some ''0002''"
    using main [where hasUnicode = "\<lambda>_ _. False" and repoName = "''MyRepo''" and path = "''/README.md''",
        THEN conjunct1, rule_format, OF found]
    unfolding project by simp
  have none: "\<forall>r \<in> set example_repos. \<exists>n. Name r = Some n \<and> \<not> EqualFold (\<lambda>_ _. False) n ''Nope''"
    by (simp add: example_repos_def example_names_fold del: EqualFold.simps)
  have 2: "getFileContent (\<lambda>_ _. False) ?c ''Nope'' ''/README.md'' =
     (Returns ('''', Some (errors_New ''repository not found: Nope'')),
      [Call_GetRepositories
         \<lparr> Repos_Project = Some ''HCC'', IncludeLinks = None, IncludeAllUrls = None, IncludeHidden = None \<rparr>])"
    using main [where hasUnicode = "\<lambda>_ _. False" and repoName = "''Nope''" and path = "''/README.md''",
        THEN conjunct2, THEN conjunct1, THEN mp, OF none]
    unfolding project by simp
  have ascii: "\<forall>ch \<in> set ''myrepo'' \<union> set ''MyRepo''. byte ch < 0x80"
    by (simp add: byte_def)
  have "(\<forall>ch \<in> set ''myrepo'' \<union> set ''MyRepo''. byte ch < 0x80) \<longrightarrow>
      EqualFold (\<lambda>_ _. False) ''myrepo'' ''MyRepo'' = spec_equal_ignoring_case ''myrepo'' ''MyRepo''"
    using main [where hasUnicode = "\<lambda>_ _. False" and repoName = "''MyRepo''" and path = "''/README.md''",
        THEN conjunct2, THEN conjunct2]
    by (rule spec)
  from this ascii
  have 3: "EqualFold (\<lambda>_ _. False) ''myrepo'' ''MyRepo'' = spec_equal_ignoring_case ''myrepo'' ''MyRepo''"
    by (rule mp)
  show ?thesis by (rule conjI [OF 1 conjI [OF 2 3]])
qed

section \<open>Read: the item request and its result\<close>

text \<open>
  Claim C3. Every item request that a read call issues carries a repository
  id, the configured project, the \<^verbatim>\<open>path\<close> argument and the include-content
  flag set to true, and nothing else: the version descriptor, which is where
  a branch would go, and the six other optional fields are nil. The handler
  does not read a \<^verbatim>\<open>branch\<close> argument: setting, changing or removing it
  changes neither the result nor the requests.
\<close>

theorem read_never_passes_a_branch:
  "(\<forall>request. Call_GetItem request \<in> set (snd (read_handler hasUnicode c Arguments)) \<longrightarrow>
      RepositoryId request \<noteq> None \<and>
      Item_Project request = Some (AzureDevOps_Project (config c)) \<and>
      Item_Path request = Some (fst (assert_string (Arguments ''path''))) \<and>
      IncludeContent request = Some True \<and>
      VersionDescriptor request = None \<and>
      ScopePath request = None \<and>
      RecursionLevel request = None \<and>
      IncludeContentMetadata request = None \<and>
      LatestProcessedChange request = None \<and>
      Download request = None \<and>
      ResolveLfs request = None) \<and>
   (\<forall>v. read_handler hasUnicode c (Arguments(''branch'' := v)) = read_handler hasUnicode c Arguments)"
proof (rule conjI; intro allI impI)
  fix request
  assume a: "Call_GetItem request \<in> set (snd (read_handler hasUnicode c Arguments))"
  obtain repo ok where repo: "assert_string (Arguments ''repository'') = (repo, ok)"
    by (cases "assert_string (Arguments ''repository'')")
  obtain path ok' where path': "assert_string (Arguments ''path'') = (path, ok')"
    by (cases "assert_string (Arguments ''path'')")
  from a repo path' have ok: "ok" "ok'"
    by (auto simp: read_handler_def split: bool.splits)
  with repo path' have path: "assert_string (Arguments ''path'') = (path, True)" by simp
  from a have "Call_GetItem request \<in> set (snd (getFileContent hasUnicode c repo path))"
    using read_handler_calls [of Arguments repo path hasUnicode c] repo path ok by simp
  then obtain repoID where "request = item_args c repoID path"
    using getFileContent_calls_shape by blast
  then show "RepositoryId request \<noteq> None \<and>
      Item_Project request = Some (AzureDevOps_Project (config c)) \<and>
      Item_Path request = Some (fst (assert_string (Arguments ''path''))) \<and>
      IncludeContent request = Some True \<and>
      VersionDescriptor request = None \<and>
      ScopePath request = None \<and>
      RecursionLevel request = None \<and>
      IncludeContentMetadata request = None \<and>
      LatestProcessedChange request = None \<and>
      Download request = None \<and>
      ResolveLfs request = None"
    using path by (simp add: item_args_def)
next
  fix v
  have other: "(Arguments(''branch'' := v)) ''repository'' = Arguments ''repository''"
    "(Arguments(''branch'' := v)) ''path'' = Arguments ''path''"
    by simp_all
  show "read_handler hasUnicode c (Arguments(''branch'' := v)) = read_handler hasUnicode c Arguments"
    unfolding read_handler_def other by (rule refl)
qed

text \<open>
  A read of \<^verbatim>\<open>/README.md\<close> from \<^verbatim>\<open>MyRepo\<close>: the item request that is
  issued, and the same call with the branch \<^verbatim>\<open>dev\<close> given.
\<close>

theorem read_never_passes_a_branch_witness:
  "Call_GetItem
     \<lparr> RepositoryId = Some ''0002'', Item_Path = Some ''/README.md'', Item_Project = Some ''HCC'',
       ScopePath = None, RecursionLevel = None, IncludeContentMetadata = None,
       LatestProcessedChange = None, Download = None, VersionDescriptor = None,
       IncludeContent = Some True, ResolveLfs = None \<rparr>
     \<in> set (snd (read_handler (\<lambda>_ _. False)
                   (stub_client (None, None) (Some example_repos, None) (Some example_item, None))
                   [''repository'' \<mapsto> GoString ''MyRepo'', ''path'' \<mapsto> GoString ''/README.md''])) \<and>
   VersionDescriptor
     \<lparr> RepositoryId = Some ''0002'', Item_Path = Some ''/README.md'', Item_Project = Some ''HCC'',
       ScopePath = None, RecursionLevel = None, IncludeContentMetadata = None,
       LatestProcessedChange = None, Download = None, VersionDescriptor = None,
       IncludeContent = Some True, ResolveLfs = None \<rparr> = None \<and>
   read_handler (\<lambda>_ _. False)
     (stub_client (None, None) (Some example_repos, None) (Some example_item, None))
     ([''repository'' \<mapsto> GoString ''MyRepo'', ''path'' \<mapsto> GoString ''/README.md'']
        (''branch'' := Some (GoString ''dev''))) =
   read_handler (\<lambda>_ _. False)
     (stub_client (None, None) (Some example_repos, None) (Some example_item, None))
     [''repository'' \<mapsto> GoString ''MyRepo'', ''path'' \<mapsto> GoString ''/README.md'']"
proof -
  let ?c = "stub_client (None, None) (Some example_repos, None) (Some example_item, None)"
  let ?A = "[''repository'' \<mapsto> GoString ''MyRepo'', ''path'' \<mapsto> GoString ''/README.md'']"
  let ?request = "\<lparr> RepositoryId = Some ''0002'', Item_Path = Some ''/README.md'', Item_Project = Some ''HCC'',
       ScopePath = None, RecursionLevel = None, IncludeContentMetadata = None,
       LatestProcessedChange = None, Download = None, VersionDescriptor = None,
       IncludeContent = Some True, ResolveLfs = None \<rparr>"
  have found: "find_target_repo (\<lambda>_ _. False) example_repos ''MyRepo'' =
      Returns (Some \<lparr> Id = Some (UUID ''0002''), Name = Some ''myrepo'' \<rparr>)"
    by (simp add: example_repos_def example_names_fold del: EqualFold.simps)
  have listing: "GetRepositories (gitClient ?c) (repositories_args ?c) = (Some example_repos, None)"
    by (simp add: stub_client_def)
  have "snd (getFileContent (\<lambda>_ _. False) ?c ''MyRepo'' ''/README.md'') =
      [Call_GetRepositories (repositories_args ?c), Call_GetItem (item_args ?c ''0002'' ''/README.md'')]"
    using getFileContent_found [OF listing found, of "''/README.md''"]
      fetch_item_calls [of "\<lparr> Id = Some (UUID ''0002''), Name = Some ''myrepo'' \<rparr>" "UUID ''0002''" ?c "''/README.md''"]
    by simp
  moreover have "item_args ?c ''0002'' ''/README.md'' = ?request"
    by (simp add: item_args_def stub_client_def example_config_def)
  moreover have "snd (read_handler (\<lambda>_ _. False) ?c ?A) =
      snd (getFileContent (\<lambda>_ _. False) ?c ''MyRepo'' ''/README.md'')"
    by (rule read_handler_calls) simp_all
  ultimately have issued: "Call_GetItem ?request \<in> set (snd (read_handler (\<lambda>_ _. False) ?c ?A))"
    by simp
  note main = read_never_passes_a_branch [where hasUnicode = "\<lambda>_ _. False" and c = ?c and Arguments = ?A]
  from main [THEN conjunct1, rule_format, OF issued]
  have "VersionDescriptor ?request = None" by blast
  moreover from main [THEN conjunct2, rule_format, of "Some (GoString ''dev'')"]
  have "read_handler (\<lambda>_ _. False) ?c (?A(''branch'' := Some (GoString ''dev''))) =
      read_handler (\<lambda>_ _. False) ?c ?A" .
  ultimately show ?thesis using issued by blast
qed

text \<open>
  Claim C7. When the listing succeeds, the repository is found and has an id,
  and the item request returns an item with a nil error, an item whose
  content is nil makes \<^verbatim>\<open>getFileContent\<close> return the empty string with a nil
  error, and the read handler return the empty text with a nil error.
\<close>

theorem null_content_reads_as_empty_string:
  assumes listing:
    "GetRepositories (gitClient c)
       \<lparr> Repos_Project = Some (AzureDevOps_Project (config c)),
         IncludeLinks = None, IncludeAllUrls = None, IncludeHidden = None \<rparr> = (Some repos, None)"
    and found: "find_target_repo hasUnicode repos repoName = Returns (Some repo)"
    and uuid: "Id repo = Some uuid"
    and item: "GetItem (gitClient c) (item_args c (UUID_String uuid) path) = (Some item, None)"
    and content: "Content item = None"
  shows
    "fst (getFileContent hasUnicode c repoName path) = Returns ('''', None) \<and>
     (\<forall>Arguments.
        Arguments ''repository'' = Some (GoString repoName) \<and> Arguments ''path'' = Some (GoString path) \<longrightarrow>
        fst (read_handler hasUnicode c Arguments) = Returns (Some (NewToolResultText ''''), None))"
proof -
  have "fst (fetch_item c repo path) = Returns ('''', None)"
    using uuid item content by (simp add: fetch_item_def Let_def)
  moreover have "GetRepositories (gitClient c) (repositories_args c) = (Some repos, None)"
    using listing by (simp add: repositories_args_def)
  ultimately have run: "fst (getFileContent hasUnicode c repoName path) = Returns ('''', None)"
    using found getFileContent_found by simp
  then show ?thesis
    by (auto simp: read_handler_def split: prod.splits)
qed

text \<open>A read of a directory entry: the upstream item has no content.\<close>

theorem null_content_reads_as_empty_string_witness:
  "fst (getFileContent (\<lambda>_ _. False)
          (stub_client (None, None) (Some example_repos, None) (Some \<lparr> Content = None \<rparr>, None))
          ''MyRepo'' ''/src'') = Returns ('''', None) \<and>
   fst (read_handler (\<lambda>_ _. False)
          (stub_client (None, None) (Some example_repos, None) (Some \<lparr> Content = None \<rparr>, None))
          [''repository'' \<mapsto> GoString ''MyRepo'', ''path'' \<mapsto> GoString ''/src'']) =
     Returns (Some (NewToolResultText ''''), None)"
proof -
  let ?c = "stub_client (None, None) (Some example_repos, None) (Some \<lparr> Content = None \<rparr>, None)"
  let ?repo = "\<lparr> Id = Some (UUID ''0002''), Name = Some ''myrepo'' \<rparr>"
  have listing: "GetRepositories (gitClient ?c)
       \<lparr> Repos_Project = Some (AzureDevOps_Project (config ?c)),
         IncludeLinks = None, IncludeAllUrls = None, IncludeHidden = None \<rparr> = (Some example_repos, None)"
    by (simp add: stub_client_def)
  have found: "find_target_repo (\<lambda>_ _. False) example_repos ''MyRepo'' = Returns (Some ?repo)"
    by (simp add: example_repos_def example_names_fold del: EqualFold.simps)
  have uuid: "Id ?repo = Some (UUID ''0002'')" by simp
  have item: "GetItem (gitClient ?c) (item_args ?c (UUID_String (UUID ''0002'')) ''/src'') =
      (Some \<lparr> Content = None \<rparr>, None)"
    by (simp add: stub_client_def)
  have content: "Content \<lparr> Content = None \<rparr> = None" by simp
  note main = null_content_reads_as_empty_string [OF listing found uuid item content]
  from main [THEN conjunct2, rule_format,
      of "[''repository'' \<mapsto> GoString ''MyRepo'', ''path'' \<mapsto> GoString ''/src'']"]
  have "fst (read_handler (\<lambda>_ _. False) ?c
          [''repository'' \<mapsto> GoString ''MyRepo'', ''path'' \<mapsto> GoString ''/src'']) =
     Returns (Some (NewToolResultText ''''), None)"
    by simp
  with main [THEN conjunct1] show ?thesis by simp
qed

text \<open>
  Claim C10. Whenever \<^verbatim>\<open>getFileContent\<close> returns with a non-nil error, be it
  from the listing, from the repository not being found or from the item
  request, the content it returns is the empty string.
\<close>

theorem read_error_has_empty_content:
  "fst (getFileContent hasUnicode c repoName path) = Returns (content, Some err) \<Longrightarrow> content = ''''"
  by (auto simp: getFileContent_def fetch_item_def Let_def split: prod.splits option.splits outcome.splits)

text \<open>
  An item request that fails although the upstream hands back an item with
  content: the content is not passed on.
\<close>

theorem read_error_has_empty_content_witness:
  "fst (getFileContent (\<lambda>_ _. False)
          (stub_client (None, None) (Some example_repos, None)
             (Some example_item, Some (errors_New ''connection reset'')))
          ''MyRepo'' ''/README.md'') = Returns ('''', Some (errors_New ''connection reset''))"
proof -
  let ?c = "stub_client (None, None) (Some example_repos, None)
             (Some example_item, Some (errors_New ''connection reset''))"
  let ?repo = "\<lparr> Id = Some (UUID ''0002''), Name = Some ''myrepo'' \<rparr>"
  have listing: "GetRepositories (gitClient ?c) (repositories_args ?c) = (Some example_repos, None)"
    by (simp add: stub_client_def)
  have found: "find_target_repo (\<lambda>_ _. False) example_repos ''MyRepo'' = Returns (Some ?repo)"
    by (simp add: example_repos_def example_names_fold del: EqualFold.simps)
  have "\<exists>content. fst (fetch_item ?c ?repo ''/README.md'') =
      Returns (content, Some (errors_New ''connection reset''))"
    by (simp add: fetch_item_def stub_client_def)
  then obtain content where run:
    "fst (getFileContent (\<lambda>_ _. False) ?c ''MyRepo'' ''/README.md'') =
       Returns (content, Some (errors_New ''connection reset''))"
    using getFileContent_found [OF listing found, of "''/README.md''"] by auto
  from read_error_has_empty_content [OF run] run show ?thesis by simp
qed

end
